theory Spec2Isabelle
  imports Complex_Main
begin

section \<open>Python values, exceptions and tables\<close>

text \<open>
  The two processors of the repository (\<^verbatim>\<open>field_data_processor.py\<close> and
  \<^verbatim>\<open>weather_data_processor.py\<close>) are embedded as functions on an explicit
  object state. A method that raises returns \<open>Inl\<close> of the exception together with
  the state as the method left it, since Python keeps the assignments made before the raise.
\<close>

datatype py_error =
    IndexError | KeyError | AttributeError | TypeError | ValueError | StopIteration
  | ExternalError string

text \<open>
  A table cell: a missing value (\<^verbatim>\<open>None\<close> or \<^verbatim>\<open>NaN\<close>, which pandas treats alike),
  a number or a string. A finite float is modelled by the rational number it denotes; the
  rounding of float arithmetic and the infinities are not modelled.
\<close>

datatype cell = Null | Num rat | Str string

datatype log_level = DEBUG | INFO | WARNING

type_synonym log_record = "log_level \<times> string"

section \<open>The weather processor: extraction of one measurement\<close>

text \<open>
  \<^verbatim>\<open>next((x for x in match.groups() if x is not None))\<close>: the first group that is
  not \<^verbatim>\<open>None\<close>; \<^verbatim>\<open>next\<close> without a default raises \<^verbatim>\<open>StopIteration\<close> when
  there is none.
\<close>

fun next_not_none :: "string option list \<Rightarrow> py_error + string" where
  "next_not_none [] = Inl StopIteration"
| "next_not_none (None # xs) = next_not_none xs"
| "next_not_none (Some x # xs) = Inr x"

text \<open>
  The loop of \<^verbatim>\<open>extract_measurement\<close> over \<^verbatim>\<open>self.patterns.items()\<close>, a dict in
  insertion order, here an association list. The two library functions it calls are
  parameters: \<open>re_search pattern message\<close> is \<^verbatim>\<open>re.search\<close> on a well-formed pattern,
  \<open>None\<close> for no match and otherwise \<^verbatim>\<open>match.groups()\<close> (a match object is always
  true); \<open>py_float\<close> is \<^verbatim>\<open>float\<close> on a string, \<open>None\<close> where it raises
  \<^verbatim>\<open>ValueError\<close>. On a message that is not a string \<^verbatim>\<open>re.search\<close> raises
  \<^verbatim>\<open>TypeError\<close>. The second component lists the calls to the logger, the debug call
  being made before the group is read.
\<close>

fun extract_measurement_loop ::
  "(string \<Rightarrow> string \<Rightarrow> string option list option) \<Rightarrow> (string \<Rightarrow> rat option) \<Rightarrow>
   (string \<times> string) list \<Rightarrow> cell \<Rightarrow> (py_error + cell \<times> cell) \<times> log_record list" where
  "extract_measurement_loop re_search py_float [] message =
     (Inr (Null, Null), [(DEBUG, ''No measurement match found.'')])"
| "extract_measurement_loop re_search py_float ((key, pattern) # items) message =
     (case message of
        Str m \<Rightarrow>
          (case re_search pattern m of
             None \<Rightarrow> extract_measurement_loop re_search py_float items message
           | Some groups \<Rightarrow>
               (case next_not_none groups of
                  Inl e \<Rightarrow> Inl e
                | Inr x \<Rightarrow>
                    (case py_float x of
                       None \<Rightarrow> Inl ValueError
                     | Some v \<Rightarrow> Inr (Str key, Num v)),
                [(DEBUG, ''Measurement extracted: '' @ key)]))
      | _ \<Rightarrow> (Inl TypeError, []))"

section \<open>Tables\<close>

text \<open>
  A pandas \<^verbatim>\<open>DataFrame\<close> with the default row index: the column labels in order, and
  the rows, each a list of cells in the order of the labels. The operations below are the
  pandas calls the source makes, written for tables every row of which has one cell per
  label; the check of the \<^verbatim>\<open>.str\<close> accessor on the column's dtype and the
  merge's check of the key columns' dtypes are not modelled.
\<close>

record dataframe =
  columns :: "string list"
  rows :: "cell list list"


text \<open>The cell of row \<open>r\<close> under a label (the first column of that label).\<close>

definition row_get :: "string list \<Rightarrow> cell list \<Rightarrow> string \<Rightarrow> cell" where
  "row_get cols r name = (case map_of (zip cols r) name of Some v \<Rightarrow> v | None \<Rightarrow> Null)"

text \<open>\<^verbatim>\<open>df[name]\<close>: the column as a list of cells, \<^verbatim>\<open>KeyError\<close> for an unknown label.\<close>

definition getitem :: "dataframe \<Rightarrow> string \<Rightarrow> py_error + cell list" where
  "getitem d name =
     (if name \<in> set (columns d) then Inr (map (\<lambda>r. row_get (columns d) r name) (rows d))
      else Inl KeyError)"

text \<open>
  \<^verbatim>\<open>df[name] = values\<close>: replaces the column of that label, or appends a new last
  column; \<^verbatim>\<open>ValueError\<close> when the number of values is not the number of rows.
\<close>

definition row_set :: "string list \<Rightarrow> string \<Rightarrow> cell list \<Rightarrow> cell \<Rightarrow> cell list" where
  "row_set cols name r v =
     (if name \<in> set cols then map (\<lambda>(c, old). if c = name then v else old) (zip cols r)
      else r @ [v])"

definition setitem :: "dataframe \<Rightarrow> string \<Rightarrow> cell list \<Rightarrow> py_error + dataframe" where
  "setitem d name vals =
     (if length vals \<noteq> length (rows d) then Inl ValueError
      else Inr \<lparr>columns = (if name \<in> set (columns d) then columns d else columns d @ [name]),
                rows = map (\<lambda>(r, v). row_set (columns d) name r v) (zip (rows d) vals)\<rparr>)"

text \<open>
  \<^verbatim>\<open>df.rename(columns=mapper)\<close> with a dict: a label that is a key of the dict is
  replaced, every other label is kept, and a key that is no label is ignored.
\<close>

definition rename :: "dataframe \<Rightarrow> (string \<rightharpoonup> string) \<Rightarrow> dataframe" where
  "rename d mapper =
     d\<lparr>columns := map (\<lambda>c. case mapper c of Some c' \<Rightarrow> c' | None \<Rightarrow> c) (columns d)\<rparr>"

text \<open>\<^verbatim>\<open>df.drop(columns=name)\<close>: \<^verbatim>\<open>KeyError\<close> when no column has the label.\<close>

definition drop_label :: "string \<Rightarrow> string list \<Rightarrow> cell list \<Rightarrow> cell list" where
  "drop_label name cols r = map snd (filter (\<lambda>(c, v). c \<noteq> name) (zip cols r))"

definition drop_columns :: "dataframe \<Rightarrow> string \<Rightarrow> py_error + dataframe" where
  "drop_columns d name =
     (if name \<in> set (columns d)
      then Inr \<lparr>columns = filter (\<lambda>c. c \<noteq> name) (columns d),
                rows = map (drop_label name (columns d)) (rows d)\<rparr>
      else Inl KeyError)"

text \<open>
  \<^verbatim>\<open>left.merge(right, on=key, how='left')\<close>. Every left row, in order, is paired with
  each right row of the same key (missing keys match each other), in the right table's
  order, or with missing values when there is none. The key column appears once; a label
  other than the key that both tables have gets the suffix \<^verbatim>\<open>_x\<close> on the left and
  \<^verbatim>\<open>_y\<close> on the right.
\<close>

definition suffix_overlap :: "string \<Rightarrow> string list \<Rightarrow> string \<Rightarrow> string \<Rightarrow> string" where
  "suffix_overlap key others sfx c = (if c \<noteq> key \<and> c \<in> set others then c @ sfx else c)"

definition merge_row :: "dataframe \<Rightarrow> dataframe \<Rightarrow> string \<Rightarrow> cell list \<Rightarrow> cell list list" where
  "merge_row left right key l =
     (let matches = filter (\<lambda>r. row_get (columns right) r key = row_get (columns left) l key)
                      (rows right)
      in if matches = []
         then [l @ replicate (length (filter (\<lambda>c. c \<noteq> key) (columns right))) Null]
         else map (\<lambda>r. l @ drop_label key (columns right) r) matches)"

definition merge_left :: "dataframe \<Rightarrow> dataframe \<Rightarrow> string \<Rightarrow> py_error + dataframe" where
  "merge_left left right key =
     (if key \<in> set (columns left) \<and> key \<in> set (columns right)
      then Inr \<lparr>columns = map (suffix_overlap key (columns right) ''_x'') (columns left)
                          @ map (suffix_overlap key (columns left) ''_y'')
                              (filter (\<lambda>c. c \<noteq> key) (columns right)),
                rows = concat (map (merge_row left right key) (rows left))\<rparr>
      else Inl KeyError)"

section \<open>The weather processor\<close>

record weather_data_processor =
  weather_station_data :: string
  patterns :: "(string \<times> string) list"
  weather_df :: "dataframe option"
  logger :: "log_record list"

definition log_call :: "log_record \<Rightarrow> weather_data_processor \<Rightarrow> weather_data_processor" where
  "log_call entry self = self\<lparr>logger := logger self @ [entry]\<rparr>"

text \<open>\<^verbatim>\<open>extract_measurement(self, message)\<close>: the result and the object with the logger's calls.\<close>

definition extract_measurement ::
  "(string \<Rightarrow> string \<Rightarrow> string option list option) \<Rightarrow> (string \<Rightarrow> rat option) \<Rightarrow>
   weather_data_processor \<Rightarrow> cell \<Rightarrow> (py_error + cell \<times> cell) \<times> weather_data_processor" where
  "extract_measurement re_search py_float self message =
     (case extract_measurement_loop re_search py_float (patterns self) message of
        (res, calls) \<Rightarrow> (res, self\<lparr>logger := logger self @ calls\<rparr>))"

text \<open>
  \<^verbatim>\<open>Series.apply\<close> with a method of the object: the elements in order, stopping at the
  first exception, the object's state passed along.
\<close>

fun series_apply ::
  "('s \<Rightarrow> cell \<Rightarrow> (py_error + 'a) \<times> 's) \<Rightarrow> 's \<Rightarrow> cell list \<Rightarrow> (py_error + 'a list) \<times> 's" where
  "series_apply f s [] = (Inr [], s)"
| "series_apply f s (x # xs) =
     (case f s x of
        (Inl e, s1) \<Rightarrow> (Inl e, s1)
      | (Inr y, s1) \<Rightarrow>
          (case series_apply f s1 xs of
             (Inl e, s2) \<Rightarrow> (Inl e, s2)
           | (Inr ys, s2) \<Rightarrow> (Inr (y # ys), s2)))"

text \<open>
  \<^verbatim>\<open>WeatherDataProcessor.weather_station_mapping\<close>; \<open>read_from_web_CSV\<close> is the
  function of that name of the module \<^verbatim>\<open>data_ingestion\<close>, a parameter.
\<close>

definition weather_station_mapping_weather ::
  "(string \<Rightarrow> py_error + dataframe) \<Rightarrow> weather_data_processor \<Rightarrow>
   (py_error + unit) \<times> weather_data_processor" where
  "weather_station_mapping_weather read_from_web_CSV self =
     (case read_from_web_CSV (weather_station_data self) of
        Inl e \<Rightarrow> (Inl e, self)
      | Inr d \<Rightarrow>
          (Inr (), log_call (INFO, ''Successfully loaded weather station data from the web.'')
                     (self\<lparr>weather_df := Some d\<rparr>)))"

text \<open>
  \<^verbatim>\<open>process_messages\<close>. \<^verbatim>\<open>zip(*result)\<close> of a table without rows yields nothing,
  and unpacking it into two targets raises \<^verbatim>\<open>ValueError\<close>. The method returns
  \<^verbatim>\<open>self.weather_df\<close>.
\<close>

definition process_messages ::
  "(string \<Rightarrow> string \<Rightarrow> string option list option) \<Rightarrow> (string \<Rightarrow> rat option) \<Rightarrow>
   weather_data_processor \<Rightarrow> (py_error + dataframe option) \<times> weather_data_processor" where
  "process_messages re_search py_float self =
     (case weather_df self of
        None \<Rightarrow>
          (Inr None,
           log_call (WARNING, ''weather_df is not initialized, skipping message processing.'') self)
      | Some d \<Rightarrow>
          (case getitem d ''Message'' of
             Inl e \<Rightarrow> (Inl e, self)
           | Inr messages \<Rightarrow>
               (case series_apply (extract_measurement re_search py_float) self messages of
                  (Inl e, self1) \<Rightarrow> (Inl e, self1)
                | (Inr result, self1) \<Rightarrow>
                    (if result = [] then (Inl ValueError, self1)
                     else
                       (case setitem d ''Measurement'' (map fst result) of
                          Inl e \<Rightarrow> (Inl e, self1)
                        | Inr d1 \<Rightarrow>
                            (case setitem d1 ''Value'' (map snd result) of
                               Inl e \<Rightarrow> (Inl e, self1\<lparr>weather_df := Some d1\<rparr>)
                             | Inr d2 \<Rightarrow>
                                 (Inr (Some d2),
                                  log_call (INFO, ''Messages processed and measurements extracted.'')
                                    (self1\<lparr>weather_df := Some d2\<rparr>))))))))"

text \<open>
  \<^verbatim>\<open>groupby(by=[by1, by2])[val].mean()\<close>: the rows with a missing value in a key
  column are left out (pandas' \<^verbatim>\<open>dropna=True\<close>), every remaining pair of keys is one
  group, and the mean of a group skips missing values and is missing when nothing is
  left. A string in the value column is a \<^verbatim>\<open>TypeError\<close>. pandas sorts the groups by
  key; the order is not modelled, the result being read by key only.
\<close>

fun the_nums :: "cell list \<Rightarrow> rat list" where
  "the_nums [] = []"
| "the_nums (Num x # cs) = x # the_nums cs"
| "the_nums (c # cs) = the_nums cs"

definition mean_cells :: "cell list \<Rightarrow> cell" where
  "mean_cells vals =
     (let xs = the_nums vals
      in if xs = [] then Null else Num (sum_list xs / of_nat (length xs)))"

fun is_Str :: "cell \<Rightarrow> bool" where
  "is_Str (Str s) = True"
| "is_Str c = False"

definition group_records :: "dataframe \<Rightarrow> string \<Rightarrow> string \<Rightarrow> string \<Rightarrow> ((cell \<times> cell) \<times> cell) list" where
  "group_records d by1 by2 val =
     filter (\<lambda>((a, b), v). a \<noteq> Null \<and> b \<noteq> Null)
       (map (\<lambda>r. ((row_get (columns d) r by1, row_get (columns d) r by2),
                   row_get (columns d) r val)) (rows d))"

definition groupby_mean ::
  "dataframe \<Rightarrow> string \<Rightarrow> string \<Rightarrow> string \<Rightarrow> py_error + ((cell \<times> cell) \<times> cell) list" where
  "groupby_mean d by1 by2 val =
     (if by1 \<in> set (columns d) \<and> by2 \<in> set (columns d) \<and> val \<in> set (columns d)
      then
        (if list_ex (\<lambda>r. is_Str (row_get (columns d) r val)) (rows d) then Inl TypeError
         else
           Inr (map (\<lambda>k. (k, mean_cells (map snd (filter (\<lambda>(k', v). k' = k)
                                                     (group_records d by1 by2 val)))))
                  (remdups (map fst (group_records d by1 by2 val)))))
      else Inl KeyError)"

text \<open>
  \<^verbatim>\<open>unstack()\<close> of a series keyed by pairs: the first keys become the row index, the
  second keys the columns, and a pair without a group holds a missing value.
\<close>

record means_table =
  mt_index :: "cell set"
  mt_columns :: "cell set"
  mt_value :: "cell \<Rightarrow> cell \<Rightarrow> cell"

definition unstack :: "((cell \<times> cell) \<times> cell) list \<Rightarrow> means_table" where
  "unstack means =
     \<lparr>mt_index = set (map (\<lambda>((a, b), v). a) means),
      mt_columns = set (map (\<lambda>((a, b), v). b) means),
      mt_value = (\<lambda>a b. case map_of means (a, b) of Some v \<Rightarrow> v | None \<Rightarrow> Null)\<rparr>"

definition calculate_means ::
  "weather_data_processor \<Rightarrow> (py_error + means_table option) \<times> weather_data_processor" where
  "calculate_means self =
     (case weather_df self of
        None \<Rightarrow>
          (Inr None,
           log_call (WARNING, ''weather_df is not initialized, cannot calculate means.'') self)
      | Some d \<Rightarrow>
          (case groupby_mean d ''Weather_station_ID'' ''Measurement'' ''Value'' of
             Inl e \<Rightarrow> (Inl e, self)
           | Inr means \<Rightarrow>
               (Inr (Some (unstack means)), log_call (INFO, ''Mean values calculated.'') self)))"

text \<open>\<^verbatim>\<open>WeatherDataProcessor.process\<close>.\<close>

definition process_weather ::
  "(string \<Rightarrow> py_error + dataframe) \<Rightarrow> (string \<Rightarrow> string \<Rightarrow> string option list option) \<Rightarrow>
   (string \<Rightarrow> rat option) \<Rightarrow> weather_data_processor \<Rightarrow>
   (py_error + unit) \<times> weather_data_processor" where
  "process_weather read_from_web_CSV re_search py_float self =
     (case weather_station_mapping_weather read_from_web_CSV self of
        (Inl e, self1) \<Rightarrow> (Inl e, self1)
      | (Inr u, self1) \<Rightarrow>
          (case process_messages re_search py_float self1 of
             (Inl e, self2) \<Rightarrow> (Inl e, self2)
           | (Inr r, self2) \<Rightarrow> (Inr (), log_call (INFO, ''Data processing completed.'') self2)))"

section \<open>The field processor\<close>

text \<open>
  The object of \<^verbatim>\<open>FieldDataProcessor\<close>. The dicts \<^verbatim>\<open>columns_to_rename\<close> and
  \<^verbatim>\<open>values_to_rename\<close> are association lists in insertion order (the keys of a dict
  are distinct); \<open>'e\<close> is the type of the database engine. The calls to the logger do
  not touch the table and are left out of this object.
\<close>

record 'e field_data_processor =
  db_path :: string
  sql_query :: string
  columns_to_rename :: "(string \<times> string) list"
  values_to_rename :: "(string \<times> string) list"
  weather_map_data :: string
  df :: "dataframe option"
  engine :: "'e option"

text \<open>
  \<^verbatim>\<open>ingest_sql_data\<close>; \<open>create_db_engine\<close> and \<open>query_data\<close> are the functions of
  the module \<^verbatim>\<open>data_ingestion\<close>, parameters.
\<close>

definition ingest_sql_data ::
  "(string \<Rightarrow> py_error + 'e) \<Rightarrow> ('e \<Rightarrow> string \<Rightarrow> py_error + dataframe) \<Rightarrow>
   'e field_data_processor \<Rightarrow> (py_error + dataframe) \<times> 'e field_data_processor" where
  "ingest_sql_data create_db_engine query_data self =
     (case create_db_engine (db_path self) of
        Inl e \<Rightarrow> (Inl e, self)
      | Inr eng \<Rightarrow>
          (case query_data eng (sql_query self) of
             Inl e \<Rightarrow> (Inl e, self\<lparr>engine := Some eng\<rparr>)
           | Inr d \<Rightarrow> (Inr d, self\<lparr>engine := Some eng, df := Some d\<rparr>)))"

text \<open>
  The loop of \<^verbatim>\<open>rename_columns\<close> that appends \<^verbatim>\<open>_\<close> to the temporary name while
  it is a label of the table. Each round makes the name longer, and a label is at most as
  long as the longest label.
\<close>

function fresh_temp_name :: "string list \<Rightarrow> string \<Rightarrow> string" where
  "fresh_temp_name cols temp_name =
     (if temp_name \<in> set cols then fresh_temp_name cols (temp_name @ ''_'') else temp_name)"
  by pat_completeness auto
termination
proof (relation "measure (\<lambda>(cols, t). Suc (Max (length ` set cols)) - length t)")
  show "wf (measure (\<lambda>(cols, t). Suc (Max (length ` set cols)) - length t))"
    by simp
next
  fix cols :: "string list" and temp_name :: string
  assume "temp_name \<in> set cols"
  then have "length temp_name \<le> Max (length ` set cols)"
    by simp
  then show "((cols, temp_name @ ''_''), (cols, temp_name))
             \<in> measure (\<lambda>(cols, t). Suc (Max (length ` set cols)) - length t)"
    by simp
qed

text \<open>
  \<^verbatim>\<open>rename_columns\<close>. The first key and the first value of
  \<^verbatim>\<open>columns_to_rename\<close> are read first (\<^verbatim>\<open>IndexError\<close> on an empty dict), then
  \<^verbatim>\<open>self.df.columns\<close> (\<^verbatim>\<open>AttributeError\<close> when the table is \<^verbatim>\<open>None\<close>). In the
  dict \<^verbatim>\<open>{column1: temp_name, column2: column1}\<close> the second entry replaces the first
  when the two keys are equal.
\<close>

definition rename_columns ::
  "'e field_data_processor \<Rightarrow> (py_error + unit) \<times> 'e field_data_processor" where
  "rename_columns self =
     (case columns_to_rename self of
        [] \<Rightarrow> (Inl IndexError, self)
      | (column1, column2) # others \<Rightarrow>
          (case df self of
             None \<Rightarrow> (Inl AttributeError, self)
           | Some d \<Rightarrow>
               (let temp_name = fresh_temp_name (columns d) ''__temp_name_for_swap__'';
                    d1 = rename d (Map.empty(column1 \<mapsto> temp_name, column2 \<mapsto> column1));
                    d2 = rename d1 (Map.empty(temp_name \<mapsto> column2))
                in (Inr (), self\<lparr>df := Some d2\<rparr>))))"

text \<open>
  The cell operations of \<^verbatim>\<open>apply_corrections\<close>: \<^verbatim>\<open>abs\<close> (a missing value stays
  missing, a string raises \<^verbatim>\<open>TypeError\<close>), the lookup
  \<^verbatim>\<open>self.values_to_rename.get(crop, crop)\<close> and \<^verbatim>\<open>.str.strip()\<close>, which strips the
  white space of \<^verbatim>\<open>str.isspace\<close> from both ends of a string and gives a missing
  value for a cell that is not a string. Strings are ASCII.
\<close>

fun abs_cell :: "cell \<Rightarrow> py_error + cell" where
  "abs_cell Null = Inr Null"
| "abs_cell (Num x) = Inr (Num \<bar>x\<bar>)"
| "abs_cell (Str s) = Inl TypeError"

fun series_abs :: "cell list \<Rightarrow> py_error + cell list" where
  "series_abs [] = Inr []"
| "series_abs (c # cs) =
     (case abs_cell c of
        Inl e \<Rightarrow> Inl e
      | Inr v \<Rightarrow> (case series_abs cs of Inl e \<Rightarrow> Inl e | Inr vs \<Rightarrow> Inr (v # vs)))"

definition dict_get :: "(string \<times> string) list \<Rightarrow> cell \<Rightarrow> cell" where
  "dict_get d crop =
     (case crop of
        Str s \<Rightarrow> (case map_of d s of Some v \<Rightarrow> Str v | None \<Rightarrow> crop)
      | _ \<Rightarrow> crop)"

definition isspace :: "char \<Rightarrow> bool" where
  "isspace c = (of_char c \<in> {9, 10, 11, 12, 13, 28, 29, 30, 31, 32 :: nat})"

definition strip :: "string \<Rightarrow> string" where
  "strip s = rev (dropWhile isspace (rev (dropWhile isspace s)))"

fun str_strip :: "cell \<Rightarrow> cell" where
  "str_strip (Str s) = Str (strip s)"
| "str_strip c = Null"

text \<open>
  \<^verbatim>\<open>apply_corrections\<close>. The labels \<^verbatim>\<open>Elevation\<close> and \<^verbatim>\<open>Crop_type\<close> are
  written in the body; the two parameters of the method only appear in its log message.
  Subscripting \<^verbatim>\<open>None\<close> raises \<^verbatim>\<open>TypeError\<close>. Each assignment changes the table in
  place, so an exception leaves the earlier ones done.
\<close>

definition apply_corrections ::
  "'e field_data_processor \<Rightarrow> (py_error + unit) \<times> 'e field_data_processor" where
  "apply_corrections self =
     (case df self of
        None \<Rightarrow> (Inl TypeError, self)
      | Some d \<Rightarrow>
     (case getitem d ''Elevation'' of
        Inl e \<Rightarrow> (Inl e, self)
      | Inr elevation \<Rightarrow>
     (case series_abs elevation of
        Inl e \<Rightarrow> (Inl e, self)
      | Inr elevation1 \<Rightarrow>
     (case setitem d ''Elevation'' elevation1 of
        Inl e \<Rightarrow> (Inl e, self)
      | Inr d1 \<Rightarrow>
     (case getitem d1 ''Crop_type'' of
        Inl e \<Rightarrow> (Inl e, self\<lparr>df := Some d1\<rparr>)
      | Inr crop \<Rightarrow>
     (case setitem d1 ''Crop_type'' (map (dict_get (values_to_rename self)) crop) of
        Inl e \<Rightarrow> (Inl e, self\<lparr>df := Some d1\<rparr>)
      | Inr d2 \<Rightarrow>
     (case getitem d2 ''Crop_type'' of
        Inl e \<Rightarrow> (Inl e, self\<lparr>df := Some d2\<rparr>)
      | Inr crop1 \<Rightarrow>
     (case setitem d2 ''Crop_type'' (map str_strip crop1) of
        Inl e \<Rightarrow> (Inl e, self\<lparr>df := Some d2\<rparr>)
      | Inr d3 \<Rightarrow> (Inr (), self\<lparr>df := Some d3\<rparr>)))))))))"

text \<open>
  \<^verbatim>\<open>FieldDataProcessor.weather_station_mapping\<close>: the mapping table is read first,
  then \<^verbatim>\<open>self.df.merge\<close> (\<^verbatim>\<open>AttributeError\<close> on \<^verbatim>\<open>None\<close>), and the merged table
  is stored before the column \<^verbatim>\<open>Unnamed: 0\<close> is dropped.
\<close>

definition weather_station_mapping_field ::
  "(string \<Rightarrow> py_error + dataframe) \<Rightarrow> 'e field_data_processor \<Rightarrow>
   (py_error + dataframe) \<times> 'e field_data_processor" where
  "weather_station_mapping_field read_from_web_CSV self =
     (case read_from_web_CSV (weather_map_data self) of
        Inl e \<Rightarrow> (Inl e, self)
      | Inr weather_map_df \<Rightarrow>
          (case df self of
             None \<Rightarrow> (Inl AttributeError, self)
           | Some d \<Rightarrow>
               (case merge_left d weather_map_df ''Field_ID'' of
                  Inl e \<Rightarrow> (Inl e, self)
                | Inr m \<Rightarrow>
                    (case drop_columns m ''Unnamed: 0'' of
                       Inl e \<Rightarrow> (Inl e, self\<lparr>df := Some m\<rparr>)
                     | Inr m1 \<Rightarrow> (Inr m1, self\<lparr>df := Some m1\<rparr>)))))"

text \<open>\<^verbatim>\<open>FieldDataProcessor.process\<close>.\<close>

definition process_field ::
  "(string \<Rightarrow> py_error + 'e) \<Rightarrow> ('e \<Rightarrow> string \<Rightarrow> py_error + dataframe) \<Rightarrow>
   (string \<Rightarrow> py_error + dataframe) \<Rightarrow> 'e field_data_processor \<Rightarrow>
   (py_error + unit) \<times> 'e field_data_processor" where
  "process_field create_db_engine query_data read_from_web_CSV self =
     (case ingest_sql_data create_db_engine query_data self of
        (Inl e, self1) \<Rightarrow> (Inl e, self1)
      | (Inr d, self1) \<Rightarrow>
     (case rename_columns self1 of
        (Inl e, self2) \<Rightarrow> (Inl e, self2)
      | (Inr u, self2) \<Rightarrow>
     (case apply_corrections self2 of
        (Inl e, self3) \<Rightarrow> (Inl e, self3)
      | (Inr u, self3) \<Rightarrow>
     (case weather_station_mapping_field read_from_web_CSV self3 of
        (Inl e, self4) \<Rightarrow> (Inl e, self4)
      | (Inr m, self4) \<Rightarrow> (Inr (), self4)))))"

section \<open>Concrete inputs\<close>

text \<open>
  For evaluating the processors at concrete inputs, the library functions are given by
  the finite tables of the results that Python returns: \<^verbatim>\<open>re.search(p, m)\<close> with its
  \<^verbatim>\<open>groups()\<close> for the pairs listed (no match for any other pair used below), and
  \<^verbatim>\<open>float(s)\<close> for the strings listed.
\<close>

definition example_search :: "string \<Rightarrow> string \<Rightarrow> string option list option" where
  "example_search pattern message =
     map_of
       [((''([0-9.]+) ?mm'', ''Rainfall reading: 23.5mm''), [Some ''23.5'']),
        ((''mm'', ''Rainfall reading: 23.5mm''), []),
        ((''x|(y)'', ''x''), [None]),
        ((''([0-9.]+) ?C'', ''17.5 C after 3mm''), [Some ''17.5'']),
        ((''([0-9.]+) ?mm'', ''17.5 C after 3mm''), [Some ''3''])]
       (pattern, message)"

definition example_float :: "string \<Rightarrow> rat option" where
  "example_float s = map_of [(''23.5'', 47 / 2), (''3'', 3), (''17.5'', 35 / 2)] s"

definition example_weather :: weather_data_processor where
  "example_weather =
     \<lparr>weather_station_data = ''Weather_station_data.csv'',
      patterns = [(''Rainfall'', ''([0-9.]+) ?mm''), (''Temperature'', ''([0-9.]+) ?C'')],
      weather_df = None, logger = []\<rparr>"

text \<open>
  A field table as it is ingested, with the labels \<^verbatim>\<open>Annual_yield\<close> and
  \<^verbatim>\<open>Crop_type\<close> exchanged, the same table with the labels put right, the
  configuration of \<^verbatim>\<open>validate_data.py\<close>, and a mapping table.
\<close>

definition example_raw_table :: dataframe where
  "example_raw_table =
     \<lparr>columns = [''Field_ID'', ''Elevation'', ''Annual_yield'', ''Crop_type''],
      rows = [[Num 1, Num (-5), Str ''cassaval'', Num (3 / 10)],
              [Num 2, Num 12, Str ''tea '', Num (1 / 2)],
              [Num 3, Num 0, Str ''wheatn'', Num (2 / 5)]]\<rparr>"


definition example_field :: "unit field_data_processor" where
  "example_field =
     \<lparr>db_path = ''sqlite:///Maji_Ndogo_farm_survey_small.db'', sql_query = ''SELECT *'',
      columns_to_rename = [(''Annual_yield'', ''Crop_type''), (''Crop_type'', ''Annual_yield'')],
      values_to_rename = [(''cassaval'', ''cassava''), (''wheatn'', ''wheat''), (''teaa'', ''tea'')],
      weather_map_data = ''Weather_data_field_mapping.csv'',
      df = Some example_raw_table, engine = None\<rparr>"





definition example_messages :: dataframe where
  "example_messages =
     \<lparr>columns = [''Weather_station_ID'', ''Message''],
      rows = [[Num 0, Str ''Rainfall reading: 23.5mm''],
              [Num 1, Str ''17.5 C after 3mm''],
              [Num 1, Str ''no reading'']]\<rparr>"

section \<open>Predicates of the claims\<close>




text \<open>
  The two calls that \<^verbatim>\<open>calculate_means\<close> makes to the logger, one on each of the paths
  on which it returns; two objects have the same such calls in their logs.
\<close>

definition calculate_means_calls :: "log_record set" where
  "calculate_means_calls =
     {(INFO, ''Mean values calculated.''),
      (WARNING, ''weather_df is not initialized, cannot calculate means.'')}"

definition same_means_calls :: "weather_data_processor \<Rightarrow> weather_data_processor \<Rightarrow> bool" where
  "same_means_calls s s' =
     (set (logger s') \<inter> calculate_means_calls = set (logger s) \<inter> calculate_means_calls)"

text \<open>The exchange of two labels, the net effect of the two renamings on the labels.\<close>

definition swap_label :: "string \<Rightarrow> string \<Rightarrow> string \<Rightarrow> string" where
  "swap_label a b c = (if c = a then b else if c = b then a else c)"


section \<open>Extraction: the first matching pattern\<close>

lemma loop_skip:
  "\<forall>(k, p) \<in> set before. re_search p m = None \<Longrightarrow>
   extract_measurement_loop re_search py_float (before @ rest) (Str m)
     = extract_measurement_loop re_search py_float rest (Str m)"
  by (induction before) auto


lemma next_not_none_all_none:
  "list_all (\<lambda>g. g = None) groups \<Longrightarrow> next_not_none groups = Inl StopIteration"
  by (induction groups rule: next_not_none.induct) auto

lemma next_not_none_Inr: "next_not_none groups = Inr g \<Longrightarrow> Some g \<in> set groups"
  by (induction groups rule: next_not_none.induct) auto




text \<open>
  C10. When the patterns before \<open>(k, p)\<close> do not match the message and \<open>p\<close> matches
  it with every group \<open>None\<close> (no group at all included), \<^verbatim>\<open>extract_measurement\<close>
  raises \<^verbatim>\<open>StopIteration\<close>: it returns neither a pair \<open>(kind, value)\<close> nor
  \<open>(None, None)\<close>. So whenever the method returns, the first matching pattern has a
  group that is not \<open>None\<close>. The witness below is such a configuration and message.
\<close>

theorem extract_measurement_raises_without_group:
  "patterns self = before @ (k, p) # after \<and>
   (\<forall>(k', p') \<in> set before. re_search p' m = None) \<and> re_search p m = Some groups \<longrightarrow>
     (list_all (\<lambda>g. g = None) groups \<longrightarrow>
        fst (extract_measurement re_search py_float self (Str m)) = Inl StopIteration) \<and>
     ((\<exists>r. fst (extract_measurement re_search py_float self (Str m)) = Inr r) \<longrightarrow>
        (\<exists>g. Some g \<in> set groups))"
proof (intro impI)
  assume h: "patterns self = before @ (k, p) # after \<and>
    (\<forall>(k', p') \<in> set before. re_search p' m = None) \<and> re_search p m = Some groups"
  then have loop: "extract_measurement_loop re_search py_float (patterns self) (Str m)
      = extract_measurement_loop re_search py_float ((k, p) # after) (Str m)"
    by (simp add: loop_skip)
  have none: "fst (extract_measurement re_search py_float self (Str m)) = Inl StopIteration"
    if "list_all (\<lambda>g. g = None) groups"
    using that h loop by (simp add: extract_measurement_def next_not_none_all_none)
  have some: "\<exists>g. Some g \<in> set groups"
    if "\<exists>r. fst (extract_measurement re_search py_float self (Str m)) = Inr r"
  proof (cases "next_not_none groups")
    case (Inl e)
    with that h loop show ?thesis
      by (simp add: extract_measurement_def)
  next
    case (Inr g)
    then show ?thesis
      by (auto dest: next_not_none_Inr)
  qed
  from none some show
    "(list_all (\<lambda>g. g = None) groups \<longrightarrow>
        fst (extract_measurement re_search py_float self (Str m)) = Inl StopIteration) \<and>
     ((\<exists>r. fst (extract_measurement re_search py_float self (Str m)) = Inr r) \<longrightarrow>
        (\<exists>g. Some g \<in> set groups))"
    by blast
qed

theorem extract_measurement_raises_without_group_witness:
  "example_search ''([0-9.]+) ?mm'' ''x'' = None \<and>
   example_search ''x|(y)'' ''x'' = Some [None] \<and>
   fst (extract_measurement example_search example_float
          (example_weather\<lparr>patterns := [(''Rainfall'', ''([0-9.]+) ?mm''), (''Flag'', ''x|(y)'')]\<rparr>)
          (Str ''x'')) = Inl StopIteration \<and>
   example_search ''([0-9.]+) ?mm'' ''Rainfall reading: 23.5mm'' = Some [Some ''23.5''] \<and>
   fst (extract_measurement example_search example_float example_weather
          (Str ''Rainfall reading: 23.5mm'')) = Inr (Str ''Rainfall'', Num (47 / 2)) \<and>
   Some ''23.5'' \<in> set [Some ''23.5'']"
  using extract_measurement_raises_without_group
    [where self = example_weather and re_search = example_search and py_float = example_float
       and m = "''Rainfall reading: 23.5mm''" and before = "[]" and k = "''Rainfall''"
       and p = "''([0-9.]+) ?mm''" and after = "[(''Temperature'', ''([0-9.]+) ?C'')]"
       and groups = "[Some ''23.5'']"]
    extract_measurement_raises_without_group
    [where self = "example_weather\<lparr>patterns := [(''Rainfall'', ''([0-9.]+) ?mm''), (''Flag'', ''x|(y)'')]\<rparr>"
       and re_search = example_search and py_float = example_float and m = "''x''"
       and before = "[(''Rainfall'', ''([0-9.]+) ?mm'')]" and k = "''Flag''" and p = "''x|(y)''"
       and after = "[]" and groups = "[None]"]
  by (simp add: extract_measurement_def example_weather_def example_search_def example_float_def)

section \<open>The column swap\<close>

lemma fresh_temp_name_fresh: "fresh_temp_name cols t \<notin> set cols"
proof (induction cols t rule: fresh_temp_name.induct)
  case (1 cols temp_name)
  then show ?case
    by (cases "temp_name \<in> set cols") simp_all
qed

lemma swap_label_inj: "swap_label a b x = swap_label a b y \<Longrightarrow> x = y"
  by (auto simp: swap_label_def split: if_splits)

lemma swap_label_a: "swap_label a b a = b"
  by (simp add: swap_label_def)

lemma swap_label_b: "swap_label a b b = a"
  by (simp add: swap_label_def)

lemma swap_label_other: "c \<noteq> a \<and> c \<noteq> b \<Longrightarrow> swap_label a b c = c"
  by (simp add: swap_label_def)

lemma swap_label_twice: "swap_label a b (swap_label a b c) = c"
  by (auto simp: swap_label_def)

lemma rename_twice_columns:
  assumes "t \<notin> set cols" "a \<in> set cols" "b \<in> set cols"
  shows "map (\<lambda>c. case (Map.empty(t \<mapsto> b)) c of Some c' \<Rightarrow> c' | None \<Rightarrow> c)
           (map (\<lambda>c. case (Map.empty(a \<mapsto> t, b \<mapsto> a)) c of Some c' \<Rightarrow> c' | None \<Rightarrow> c) cols)
         = map (swap_label a b) cols"
proof -
  from assms have "t \<noteq> a" "t \<noteq> b" by auto
  with assms(1) show ?thesis
    by (auto simp: swap_label_def)
qed

lemma rename_columns_swap:
  assumes "columns_to_rename self = (a, b) # others" "df self = Some d"
    "a \<in> set (columns d)" "b \<in> set (columns d)"
  shows "rename_columns self = (Inr (), self\<lparr>df := Some (d\<lparr>columns := map (swap_label a b) (columns d)\<rparr>)\<rparr>)"
  using assms rename_twice_columns [OF fresh_temp_name_fresh assms(3) assms(4)]
  by (simp add: rename_columns_def rename_def Let_def del: fresh_temp_name.simps)

lemma map_of_zip_inj:
  "(\<And>x y. f x = f y \<Longrightarrow> x = y) \<Longrightarrow> map_of (zip (map f cols) r) (f c) = map_of (zip cols r) c"
proof (induction cols arbitrary: r)
  case Nil
  then show ?case by simp
next
  case (Cons x cols)
  then show ?case by (cases r) auto
qed

lemma getitem_swapped:
  "getitem (d\<lparr>columns := map (swap_label a b) (columns d)\<rparr>) (swap_label a b c) = getitem d c"
proof -
  have "swap_label a b c \<in> swap_label a b ` set (columns d) \<longleftrightarrow> c \<in> set (columns d)"
    by (auto dest: swap_label_inj)
  moreover have "row_get (map (swap_label a b) (columns d)) r (swap_label a b c)
      = row_get (columns d) r c" for r
    by (simp add: row_get_def map_of_zip_inj [of "swap_label a b", OF swap_label_inj])
  ultimately show ?thesis
    by (simp add: getitem_def)
qed

text \<open>
  C3. When the first pair of \<^verbatim>\<open>columns_to_rename\<close> is \<open>(a, b)\<close> (in particular when
  it is the only pair) and \<open>a\<close> and \<open>b\<close> are two distinct labels of the table,
  \<^verbatim>\<open>rename_columns\<close> returns without raising, the rows are unchanged, the label \<open>a\<close>
  now holds the column that was under \<open>b\<close>, the label \<open>b\<close> the column that was under
  \<open>a\<close>, and every other label holds what it held.
\<close>

theorem rename_columns_exchanges:
  assumes "columns_to_rename self = (a, b) # others" and "df self = Some d"
    and "a \<in> set (columns d)" and "b \<in> set (columns d)" and "a \<noteq> b"
  shows "\<exists>d'. rename_columns self = (Inr (), self\<lparr>df := Some d'\<rparr>) \<and>
           rows d' = rows d \<and>
           getitem d' a = getitem d b \<and> getitem d' b = getitem d a \<and>
           (\<forall>c. c \<noteq> a \<and> c \<noteq> b \<longrightarrow> getitem d' c = getitem d c)"
proof -
  let ?d' = "d\<lparr>columns := map (swap_label a b) (columns d)\<rparr>"
  have "rename_columns self = (Inr (), self\<lparr>df := Some ?d'\<rparr>)"
    using assms by (simp add: rename_columns_swap)
  moreover have "getitem ?d' a = getitem d b"
    using getitem_swapped [where d = d and a = a and b = b and c = b] by (simp add: swap_label_b)
  moreover have "getitem ?d' b = getitem d a"
    using getitem_swapped [where d = d and a = a and b = b and c = a] by (simp add: swap_label_a)
  moreover have "getitem ?d' c = getitem d c" if "c \<noteq> a \<and> c \<noteq> b" for c
    using getitem_swapped [where d = d and a = a and b = b and c = c] that
    by (simp add: swap_label_other)
  ultimately show ?thesis
    by (intro exI [of _ ?d']) simp
qed

theorem rename_columns_exchanges_witness:
  "columns_to_rename example_field
     = (''Annual_yield'', ''Crop_type'') # [(''Crop_type'', ''Annual_yield'')] \<and>
   df example_field = Some example_raw_table \<and>
   ''Annual_yield'' \<in> set (columns example_raw_table) \<and>
   ''Crop_type'' \<in> set (columns example_raw_table) \<and>
   (\<exists>d'. rename_columns example_field = (Inr (), example_field\<lparr>df := Some d'\<rparr>) \<and>
      rows d' = rows example_raw_table \<and>
      getitem d' ''Annual_yield'' = Inr [Num (3 / 10), Num (1 / 2), Num (2 / 5)] \<and>
      getitem d' ''Crop_type'' = Inr [Str ''cassaval'', Str ''tea '', Str ''wheatn''] \<and>
      getitem d' ''Elevation'' = Inr [Num (-5), Num 12, Num 0])"
proof -
  have c: "columns_to_rename example_field
      = (''Annual_yield'', ''Crop_type'') # [(''Crop_type'', ''Annual_yield'')]"
    by (simp add: example_field_def)
  have d: "df example_field = Some example_raw_table"
    by (simp add: example_field_def)
  have a: "''Annual_yield'' \<in> set (columns example_raw_table)"
    by (simp add: example_raw_table_def)
  have b: "''Crop_type'' \<in> set (columns example_raw_table)"
    by (simp add: example_raw_table_def)
  have ab: "''Annual_yield'' \<noteq> ''Crop_type''"
    by simp
  have ga: "getitem example_raw_table ''Annual_yield''
      = Inr [Str ''cassaval'', Str ''tea '', Str ''wheatn'']"
    by (simp add: example_raw_table_def getitem_def row_get_def)
  have gb: "getitem example_raw_table ''Crop_type'' = Inr [Num (3 / 10), Num (1 / 2), Num (2 / 5)]"
    by (simp add: example_raw_table_def getitem_def row_get_def)
  have ge: "getitem example_raw_table ''Elevation'' = Inr [Num (-5), Num 12, Num 0]"
    by (simp add: example_raw_table_def getitem_def row_get_def)
  from rename_columns_exchanges [OF c d a b ab]
  obtain d' where d': "rename_columns example_field = (Inr (), example_field\<lparr>df := Some d'\<rparr>)"
      "rows d' = rows example_raw_table"
      "getitem d' ''Annual_yield'' = getitem example_raw_table ''Crop_type''"
      "getitem d' ''Crop_type'' = getitem example_raw_table ''Annual_yield''"
      "\<forall>c. c \<noteq> ''Annual_yield'' \<and> c \<noteq> ''Crop_type'' \<longrightarrow>
         getitem d' c = getitem example_raw_table c"
    by blast
  from d'(5) have "getitem d' ''Elevation'' = getitem example_raw_table ''Elevation''"
    by simp
  with c d a b d'(1,2,3,4) ga gb ge show ?thesis
    by (intro conjI exI [of _ d']) simp_all
qed

text \<open>
  C4. Under the same conditions a second call of \<^verbatim>\<open>rename_columns\<close> restores the
  object exactly, and with it the table: its labels, their order and every row.
\<close>

theorem rename_columns_involution:
  assumes "columns_to_rename self = (a, b) # others" and "df self = Some d"
    and "a \<in> set (columns d)" and "b \<in> set (columns d)" and "a \<noteq> b"
  shows "\<exists>self1. rename_columns self = (Inr (), self1) \<and> rename_columns self1 = (Inr (), self)"
proof -
  let ?d' = "d\<lparr>columns := map (swap_label a b) (columns d)\<rparr>"
  let ?self1 = "self\<lparr>df := Some ?d'\<rparr>"
  have 1: "rename_columns self = (Inr (), ?self1)"
    using assms by (simp add: rename_columns_swap)
  have a': "a \<in> set (columns ?d')"
    using assms(4) by (force simp: swap_label_def)
  have b': "b \<in> set (columns ?d')"
    using assms(3) by (force simp: swap_label_def)
  have "rename_columns ?self1
      = (Inr (), ?self1\<lparr>df := Some (?d'\<lparr>columns := map (swap_label a b) (columns ?d')\<rparr>)\<rparr>)"
    using assms(1) a' b' by (intro rename_columns_swap [where others = others]) simp_all
  also have "?d'\<lparr>columns := map (swap_label a b) (columns ?d')\<rparr> = d"
    by (simp add: swap_label_twice cong: map_cong)
  also have "?self1\<lparr>df := Some d\<rparr> = self"
    using assms(2) by simp
  finally show ?thesis
    using 1 by blast
qed

theorem rename_columns_involution_witness:
  "columns_to_rename example_field
     = (''Annual_yield'', ''Crop_type'') # [(''Crop_type'', ''Annual_yield'')] \<and>
   df example_field = Some example_raw_table \<and>
   ''Annual_yield'' \<in> set (columns example_raw_table) \<and>
   ''Crop_type'' \<in> set (columns example_raw_table) \<and>
   (\<exists>self1. rename_columns example_field = (Inr (), self1) \<and>
      rename_columns self1 = (Inr (), example_field))"
proof -
  have c: "columns_to_rename example_field
      = (''Annual_yield'', ''Crop_type'') # [(''Crop_type'', ''Annual_yield'')]"
    by (simp add: example_field_def)
  have d: "df example_field = Some example_raw_table"
    by (simp add: example_field_def)
  have a: "''Annual_yield'' \<in> set (columns example_raw_table)"
    by (simp add: example_raw_table_def)
  have b: "''Crop_type'' \<in> set (columns example_raw_table)"
    by (simp add: example_raw_table_def)
  have ab: "''Annual_yield'' \<noteq> ''Crop_type''"
    by simp
  from rename_columns_involution [OF c d a b ab] c d a b show ?thesis
    by (intro conjI)
qed

section \<open>Reading and writing columns\<close>













section \<open>The join and the dropped column\<close>














section \<open>The corrections\<close>



text \<open>
  The input of the claim C2: a row whose crop is \<^verbatim>\<open>' cassaval '\<close> and the mapping
  \<^verbatim>\<open>{cassaval: cassava}\<close>. The lookup is made with the padded string, which is no
  key, so the typo stays and only the white space goes: the crop is \<^verbatim>\<open>cassaval\<close>.
\<close>

theorem apply_corrections_padded_typo:
  "apply_corrections
     (example_field\<lparr>values_to_rename := [(''cassaval'', ''cassava'')],
        df := Some \<lparr>columns = [''Field_ID'', ''Elevation'', ''Crop_type''],
                    rows = [[Num 1, Num 786, Str '' cassaval '']]\<rparr>\<rparr>)
   = (Inr (),
      example_field\<lparr>values_to_rename := [(''cassaval'', ''cassava'')],
        df := Some \<lparr>columns = [''Field_ID'', ''Elevation'', ''Crop_type''],
                    rows = [[Num 1, Num 786, Str ''cassaval'']]\<rparr>\<rparr>)"
  by (simp add: example_field_def apply_corrections_def getitem_def setitem_def row_get_def
      row_set_def dict_get_def strip_def isspace_def)

section \<open>The crop correction applied twice\<close>

lemma dropWhile_rev_dropWhile:
  "dropWhile P (rev (dropWhile P (rev (dropWhile P s)))) = rev (dropWhile P (rev (dropWhile P s)))"
proof (cases "dropWhile P s")
  case Nil
  show ?thesis
    unfolding Nil by simp
next
  case (Cons x u)
  then have nx: "\<not> P x"
    by (metis hd_dropWhile list.distinct(1) list.sel(1))
  have "rev (dropWhile P s) = rev u @ [x]"
    using Cons by simp
  then have "dropWhile P (rev (dropWhile P s)) = dropWhile P (rev u) @ [x]"
    using nx by (simp add: dropWhile_append)
  then show ?thesis
    using nx by simp
qed

lemma strip_idem: "strip (strip s) = strip s"
  by (simp add: strip_def dropWhile_rev_dropWhile)

text \<open>
  C6, as amended. The correction of a crop is the lookup followed by the strip. If the
  corrected value \<open>t\<close> of a string \<open>s\<close> is not itself a key of the mapping, correcting
  \<open>t\<close> again gives \<open>t\<close>. (When \<open>t\<close> is a key, a second pass may change it.)
\<close>

theorem crop_correction_idempotent:
  assumes "str_strip (dict_get vr (Str s)) = Str t" and "map_of vr t = None"
  shows "str_strip (dict_get vr (Str t)) = Str t"
proof -
  from assms(1) obtain u where "t = strip u"
    by (auto simp: dict_get_def split: option.splits)
  with assms(2) show ?thesis
    by (simp add: dict_get_def strip_idem)
qed

theorem crop_correction_idempotent_witness:
  "str_strip (dict_get [(''cassaval'', ''cassava'')] (Str ''cassaval'')) = Str ''cassava'' \<and>
   map_of [(''cassaval'', ''cassava'')] ''cassava'' = None \<and>
   str_strip (dict_get [(''cassaval'', ''cassava'')] (Str ''cassava'')) = Str ''cassava''"
  using crop_correction_idempotent [of "[(''cassaval'', ''cassava'')]" "''cassaval''" "''cassava''"]
  by (simp add: dict_get_def strip_def isspace_def)

text \<open>
  The claim C6 as stated is false: with a mapping that corrects \<^verbatim>\<open>cassaval\<close> to
  \<^verbatim>\<open>cassava\<close> and \<^verbatim>\<open>cassava\<close> to \<^verbatim>\<open>manioc\<close>, one pass gives \<^verbatim>\<open>cassava\<close> and
  two passes give \<^verbatim>\<open>manioc\<close>.
\<close>

theorem crop_correction_chain_counterexample:
  "str_strip (dict_get [(''cassaval'', ''cassava''), (''cassava'', ''manioc'')] (Str ''cassaval''))
     = Str ''cassava'' \<and>
   str_strip (dict_get [(''cassaval'', ''cassava''), (''cassava'', ''manioc'')]
     (str_strip (dict_get [(''cassaval'', ''cassava''), (''cassava'', ''manioc'')] (Str ''cassaval''))))
     = Str ''manioc''"
  by (simp add: dict_get_def strip_def isspace_def)

section \<open>The join with the mapping table\<close>













section \<open>The means\<close>




lemma mean_cells_Nil: "mean_cells [] = Null"
  by (simp add: mean_cells_def)






section \<open>The table that was not loaded\<close>

lemma same_means_calls_refl: "same_means_calls s s"
  by (simp add: same_means_calls_def)

lemma same_means_calls_trans:
  "same_means_calls s s1 \<Longrightarrow> same_means_calls s1 s2 \<Longrightarrow> same_means_calls s s2"
  by (simp add: same_means_calls_def)

lemma same_means_calls_df: "same_means_calls s (s1\<lparr>weather_df := t\<rparr>) = same_means_calls s s1"
  by (simp add: same_means_calls_def)

lemma same_means_calls_log:
  "entry \<notin> calculate_means_calls \<Longrightarrow> same_means_calls s (log_call entry s1) = same_means_calls s s1"
  by (simp add: same_means_calls_def log_call_def)

lemma loop_calls_debug:
  "entry \<in> set (snd (extract_measurement_loop re_search py_float items message)) \<Longrightarrow>
   fst entry = DEBUG"
  by (induction items) (auto split: cell.splits option.splits)

lemma extract_measurement_same_calls:
  "same_means_calls s (snd (extract_measurement re_search py_float s message))"
proof -
  have "entry \<notin> calculate_means_calls"
    if "entry \<in> set (snd (extract_measurement_loop re_search py_float (patterns s) message))"
    for entry
    using loop_calls_debug [OF that] by (auto simp: calculate_means_calls_def)
  then show ?thesis
    by (auto simp: same_means_calls_def extract_measurement_def split: prod.splits)
qed

lemma extract_measurement_df:
  "weather_df (snd (extract_measurement re_search py_float s message)) = weather_df s"
  by (simp add: extract_measurement_def split: prod.splits)

lemma series_apply_same_calls:
  "same_means_calls s (snd (series_apply (extract_measurement re_search py_float) s messages))"
proof (induction messages arbitrary: s)
  case Nil
  then show ?case by (simp add: same_means_calls_refl)
next
  case (Cons x xs)
  obtain r s1 where f: "extract_measurement re_search py_float s x = (r, s1)"
    by (cases "extract_measurement re_search py_float s x")
  have 1: "same_means_calls s s1"
    using extract_measurement_same_calls [of s re_search py_float x] f by simp
  show ?case
  proof (cases r)
    case (Inl e)
    with f 1 show ?thesis by simp
  next
    case (Inr y)
    have "same_means_calls s1 (snd (series_apply (extract_measurement re_search py_float) s1 xs))"
      by (rule Cons.IH)
    with 1 have "same_means_calls s (snd (series_apply (extract_measurement re_search py_float) s1 xs))"
      by (rule same_means_calls_trans)
    with f Inr show ?thesis
      by (auto split: prod.splits sum.splits)
  qed
qed

lemma process_messages_same_calls:
  "same_means_calls s (snd (process_messages re_search py_float s))"
proof (cases "weather_df s")
  case None
  then show ?thesis
    by (simp add: process_messages_def same_means_calls_log calculate_means_calls_def
        same_means_calls_refl)
next
  case (Some d)
  show ?thesis
  proof (cases "getitem d ''Message''")
    case (Inl e)
    with Some show ?thesis
      by (simp add: process_messages_def same_means_calls_refl)
  next
    case (Inr messages)
    have "same_means_calls s (snd (series_apply (extract_measurement re_search py_float) s messages))"
      by (rule series_apply_same_calls)
    with Some Inr show ?thesis
      by (auto simp: process_messages_def same_means_calls_log same_means_calls_df
          calculate_means_calls_def split: prod.splits sum.splits)
  qed
qed

lemma process_weather_same_calls:
  "same_means_calls s (snd (process_weather read_from_web_CSV re_search py_float s))"
proof (cases "read_from_web_CSV (weather_station_data s)")
  case (Inl e)
  then show ?thesis
    by (simp add: process_weather_def weather_station_mapping_weather_def same_means_calls_refl)
next
  case (Inr d)
  let ?s1 = "log_call (INFO, ''Successfully loaded weather station data from the web.'')
               (s\<lparr>weather_df := Some d\<rparr>)"
  have 1: "same_means_calls s ?s1"
    by (simp add: same_means_calls_log same_means_calls_df calculate_means_calls_def
        same_means_calls_refl)
  have "same_means_calls ?s1 (snd (process_messages re_search py_float ?s1))"
    by (rule process_messages_same_calls)
  with 1 have "same_means_calls s (snd (process_messages re_search py_float ?s1))"
    by (rule same_means_calls_trans)
  with Inr show ?thesis
    by (auto simp: process_weather_def weather_station_mapping_weather_def same_means_calls_log
        calculate_means_calls_def split: prod.splits sum.splits)
qed

text \<open>
  C9. While \<^verbatim>\<open>weather_df\<close> is \<^verbatim>\<open>None\<close>, \<^verbatim>\<open>process_messages\<close> and
  \<^verbatim>\<open>calculate_means\<close> return \<^verbatim>\<open>None\<close> without raising, each after one warning to
  the logger, and leave \<^verbatim>\<open>weather_df\<close> as it is. That \<^verbatim>\<open>process\<close> never invokes
  \<^verbatim>\<open>calculate_means\<close> is stated through the logger: every returning call of
  \<^verbatim>\<open>calculate_means\<close> leaves one of its two calls in the log, and the log after
  \<^verbatim>\<open>process\<close>, whatever the inputs and also when it raises, holds none of them
  that was not there before.
\<close>

theorem unloaded_weather_table:
  "(weather_df self = None \<longrightarrow>
      process_messages re_search py_float self
        = (Inr None,
           log_call (WARNING, ''weather_df is not initialized, skipping message processing.'') self) \<and>
      calculate_means self
        = (Inr None,
           log_call (WARNING, ''weather_df is not initialized, cannot calculate means.'') self) \<and>
      weather_df (snd (process_messages re_search py_float self)) = None \<and>
      weather_df (snd (calculate_means self)) = None) \<and>
   set (logger (snd (process_weather read_from_web_CSV re_search py_float self)))
       \<inter> calculate_means_calls
     = set (logger self) \<inter> calculate_means_calls \<and>
   (\<forall>r self1. calculate_means self = (Inr r, self1) \<longrightarrow>
      set (logger self1) \<inter> calculate_means_calls \<noteq> {})"
proof (intro conjI impI allI)
  assume "weather_df self = None"
  then show "process_messages re_search py_float self
        = (Inr None,
           log_call (WARNING, ''weather_df is not initialized, skipping message processing.'') self)"
    and "calculate_means self
        = (Inr None,
           log_call (WARNING, ''weather_df is not initialized, cannot calculate means.'') self)"
    and "weather_df (snd (process_messages re_search py_float self)) = None"
    and "weather_df (snd (calculate_means self)) = None"
    by (simp_all add: process_messages_def calculate_means_def log_call_def)
next
  show "set (logger (snd (process_weather read_from_web_CSV re_search py_float self)))
       \<inter> calculate_means_calls
     = set (logger self) \<inter> calculate_means_calls"
    using process_weather_same_calls [of self read_from_web_CSV re_search py_float]
    by (simp add: same_means_calls_def)
next
  fix r self1
  assume "calculate_means self = (Inr r, self1)"
  then show "set (logger self1) \<inter> calculate_means_calls \<noteq> {}"
    by (auto simp: calculate_means_def log_call_def calculate_means_calls_def
        split: option.splits sum.splits)
qed


theorem unloaded_weather_table_witness:
  "weather_df example_weather = None \<and>
   process_messages example_search example_float example_weather
     = (Inr None,
        example_weather\<lparr>logger :=
          [(WARNING, ''weather_df is not initialized, skipping message processing.'')]\<rparr>) \<and>
   calculate_means example_weather
     = (Inr None,
        example_weather\<lparr>logger :=
          [(WARNING, ''weather_df is not initialized, cannot calculate means.'')]\<rparr>) \<and>
   set (logger (snd (process_weather (\<lambda>path. Inr example_messages) example_search example_float
                       example_weather))) \<inter> calculate_means_calls = {} \<and>
   set (logger (snd (calculate_means example_weather))) \<inter> calculate_means_calls \<noteq> {}"
proof -
  have none: "weather_df example_weather = None"
    by (simp add: example_weather_def)
  have empty: "logger example_weather = []"
    by (simp add: example_weather_def)
  have log1: "log_call entry example_weather = example_weather\<lparr>logger := [entry]\<rparr>" for entry
    by (simp add: log_call_def empty)
  note inst = unloaded_weather_table [where self = example_weather and re_search = example_search
      and py_float = example_float and read_from_web_CSV = "\<lambda>path. Inr example_messages"]
  from inst none have a: "process_messages example_search example_float example_weather
      = (Inr None,
         log_call (WARNING, ''weather_df is not initialized, skipping message processing.'')
           example_weather)"
    and b: "calculate_means example_weather
      = (Inr None,
         log_call (WARNING, ''weather_df is not initialized, cannot calculate means.'')
           example_weather)"
    by blast+
  from inst have c: "set (logger (snd (process_weather (\<lambda>path. Inr example_messages) example_search
      example_float example_weather))) \<inter> calculate_means_calls = {}"
    by (simp add: empty)
  from inst b have d: "set (logger (snd (calculate_means example_weather))) \<inter> calculate_means_calls
      \<noteq> {}"
    by (metis snd_conv)
  from none a b c d show ?thesis
    by (simp only: log1 simp_thms)
qed

end
